theory Spec2Isabelle
  imports Main "HOL-Library.Multiset"
begin

section \<open>Data model\<close>

text \<open>
  The chat service (\<^verbatim>\<open>src/unnamed/part_000\<close>) and the users controller
  (\<^verbatim>\<open>src/controllers/users-controller.js\<close>) work on two MongoDB collections,
  \<^verbatim>\<open>chatmessages\<close> and \<^verbatim>\<open>users\<close>. A collection is a list of documents in
  the order the store scans them. An ObjectId is identified with its hexadecimal string, so
  \<^verbatim>\<open>toString()\<close> and the \<^verbatim>\<open>id\<close> getter of a mongoose document are the identity on
  it, and \<^verbatim>\<open>mongoose.Types.ObjectId(x)\<close> is applied to well-formed identifiers only.
  A JavaScript \<^verbatim>\<open>Date\<close> is its number of milliseconds since the epoch. An optional
  field is an \<open>option\<close>: \<open>None\<close> is a field that is absent from the document
  (\<^verbatim>\<open>undefined\<close> when read).
\<close>

type_synonym objectId = string
type_synonym timestamp = int

record chatMessage =
  m_id :: objectId \<comment> \<open>\<^verbatim>\<open>_id\<close>\<close>
  roomId :: objectId
  userId :: objectId
  type :: string
  message :: string
  payload :: "string option"
  date :: timestamp
  read :: "timestamp option"

record user =
  u_id :: objectId \<comment> \<open>\<^verbatim>\<open>_id\<close>, and \<^verbatim>\<open>id\<close>, its string\<close>
  username :: "string option"
  name :: "string option"
  profilePicture :: "string option"
  walletAddress :: "string option"
  admin :: "bool option"
  amountWon :: int

record store =
  chatMessages :: "chatMessage list"
  users :: "user list"

datatype error =
    NotFoundError
  | ForbiddenError
  | TypeError string
  | ReferenceError string
  | MongoServerError string
  | ServiceError string

fun err_message :: "error \<Rightarrow> string" where
  "err_message NotFoundError = ''''"
| "err_message ForbiddenError = ''''"
| "err_message (TypeError s) = s"
| "err_message (ReferenceError s) = s"
| "err_message (MongoServerError s) = s"
| "err_message (ServiceError s) = s"

text \<open>
  The truth value JavaScript gives the \<^verbatim>\<open>admin\<close> flag in a condition: an absent flag
  (\<^verbatim>\<open>undefined\<close>) and \<^verbatim>\<open>false\<close> are falsy, \<^verbatim>\<open>true\<close> is truthy.
\<close>

definition truthy :: "bool option \<Rightarrow> bool" where
  "truthy a = (a = Some True)"

section \<open>Read state: \<^verbatim>\<open>setMessageRead\<close>\<close>

text \<open>\<^verbatim>\<open>ChatMessage.findById(messageId)\<close>: the document with that \<^verbatim>\<open>_id\<close>, or null.\<close>

definition findById :: "chatMessage list \<Rightarrow> objectId \<Rightarrow> chatMessage option" where
  "findById coll i = find (\<lambda>m. m_id m = i) coll"

text \<open>
  \<^verbatim>\<open>message.save()\<close> of a loaded document: the stored document with the same
  \<^verbatim>\<open>_id\<close> takes the fields of the in-memory one.
\<close>

fun save :: "chatMessage \<Rightarrow> chatMessage list \<Rightarrow> chatMessage list" where
  "save m [] = []"
| "save m (d # ds) = (if m_id d = m_id m then m # ds else d # save m ds)"

text \<open>
  \<^verbatim>\<open>
  exports.setMessageRead = async (messageId, requestingUser) => {
    const message = await ChatMessage.findById(messageId);
    if (!message) { throw new NotFoundError(); }
    if (!requestingUser?.admin && message.userId.toString() !== requestingUser._id.toString()) {
      throw new ForbiddenError();
    }
    message.read = new Date();
    await message.save(message);
  };
  \<close>
  The clock is the argument \<open>now\<close>. The requesting user is optional, as the
  \<^verbatim>\<open>?.\<close> of the source allows: with no user, \<^verbatim>\<open>requestingUser?.admin\<close> is
  \<^verbatim>\<open>undefined\<close>, the left conjunct holds and reading \<^verbatim>\<open>requestingUser._id\<close>
  raises a TypeError. The result is the outcome of the call and the store after it.
\<close>

definition setMessageRead ::
  "timestamp \<Rightarrow> objectId \<Rightarrow> user option \<Rightarrow> store \<Rightarrow> (error + unit) \<times> store" where
  "setMessageRead now messageId requestingUser st =
     (case findById (chatMessages st) messageId of
        None \<Rightarrow> (Inl NotFoundError, st)
      | Some msg \<Rightarrow>
          (case requestingUser of
             None \<Rightarrow> (Inl (TypeError ''Cannot read properties of undefined''), st)
           | Some u \<Rightarrow>
               if \<not> truthy (admin u) \<and> userId msg \<noteq> u_id u
               then (Inl ForbiddenError, st)
               else (Inr (),
                     st\<lparr>chatMessages := save (msg\<lparr>read := Some now\<rparr>) (chatMessages st)\<rparr>)))"

section \<open>Chat queries\<close>

subsection \<open>The stages of the aggregation pipelines\<close>

text \<open>
  \<^verbatim>\<open>{ $sort: { date: -1 } }\<close>, and \<^verbatim>\<open>.sort({ amountWon: -1 })\<close> of a query:
  descending by the key. MongoDB leaves the order of documents with equal keys open; the
  model keeps them in collection order, which is one of the orders the store may choose.
\<close>

definition sort_desc :: "('a \<Rightarrow> int) \<Rightarrow> 'a list \<Rightarrow> 'a list" where
  "sort_desc k docs = sort_key (\<lambda>d. - k d) docs"

text \<open>
  \<^verbatim>\<open>$lookup\<close> from \<^verbatim>\<open>users\<close> with \<^verbatim>\<open>localField: 'userId'\<close>,
  \<^verbatim>\<open>foreignField: '_id'\<close>, \<^verbatim>\<open>as: 'user'\<close>: every input document is kept and gets
  the array of the users whose \<^verbatim>\<open>_id\<close> is its \<^verbatim>\<open>userId\<close> (empty when there is none).
\<close>

definition lookup_user :: "user list \<Rightarrow> chatMessage \<Rightarrow> chatMessage \<times> user list" where
  "lookup_user us m = (m, filter (\<lambda>u. u_id u = userId m) us)"

text \<open>\<^verbatim>\<open>{ $arrayElemAt: ['$user', 0] }\<close>: the first element, missing for an empty array.\<close>

definition arrayElemAt0 :: "'a list \<Rightarrow> 'a option" where
  "arrayElemAt0 xs = (case xs of [] \<Rightarrow> None | x # _ \<Rightarrow> Some x)"

text \<open>
  The \<^verbatim>\<open>user\<close> object of the projection,
  \<^verbatim>\<open>{ username: '$$userMatch.username', name: '$$userMatch.name',
  profilePicture: '$$userMatch.profilePicture' }\<close>: a field whose path is missing is left
  out, so a missing \<^verbatim>\<open>userMatch\<close> gives the empty object.
\<close>

record sender =
  sender_username :: "string option"
  sender_name :: "string option"
  sender_profilePicture :: "string option"

definition sender_of :: "user option \<Rightarrow> sender" where
  "sender_of userMatch =
     (case userMatch of
        None \<Rightarrow> \<lparr>sender_username = None, sender_name = None, sender_profilePicture = None\<rparr>
      | Some u \<Rightarrow> \<lparr>sender_username = username u, sender_name = name u,
                  sender_profilePicture = profilePicture u\<rparr>)"

text \<open>
  The documents of the room query's page: \<^verbatim>\<open>_id\<close> (which \<^verbatim>\<open>$project\<close> keeps
  unless told otherwise), \<^verbatim>\<open>userId\<close>, \<^verbatim>\<open>roomId\<close>, \<^verbatim>\<open>type\<close>,
  \<^verbatim>\<open>message\<close>, \<^verbatim>\<open>date\<close> and the computed \<^verbatim>\<open>user\<close>.
\<close>

record roomMessage =
  rm_id :: objectId
  rm_userId :: objectId
  rm_roomId :: objectId
  rm_type :: string
  rm_message :: string
  rm_date :: timestamp
  rm_user :: sender

definition project_room :: "chatMessage \<times> user list \<Rightarrow> roomMessage" where
  "project_room d =
     \<lparr>rm_id = m_id (fst d), rm_userId = userId (fst d), rm_roomId = roomId (fst d),
      rm_type = type (fst d), rm_message = message (fst d), rm_date = date (fst d),
      rm_user = sender_of (arrayElemAt0 (snd d))\<rparr>"

text \<open>
  The documents of the user query's page: \<^verbatim>\<open>_id\<close>, \<^verbatim>\<open>userId\<close>,
  \<^verbatim>\<open>roomId\<close>, \<^verbatim>\<open>type\<close>, \<^verbatim>\<open>message\<close>, \<^verbatim>\<open>date\<close>, \<^verbatim>\<open>payload\<close>.
\<close>

record notification =
  n_id :: objectId
  n_userId :: objectId
  n_roomId :: objectId
  n_type :: string
  n_message :: string
  n_date :: timestamp
  n_payload :: "string option"

definition project_notification :: "chatMessage \<Rightarrow> notification" where
  "project_notification m =
     \<lparr>n_id = m_id m, n_userId = userId m, n_roomId = roomId m, n_type = type m,
      n_message = message m, n_date = date m, n_payload = payload m\<rparr>"

text \<open>
  \<^verbatim>\<open>$group: { _id: null, count: { $sum: 1 } }\<close>: one document with the number of input
  documents, and no document at all when there is no input.
\<close>

definition group_count :: "'a list \<Rightarrow> nat list" where
  "group_count docs = (if docs = [] then [] else [length docs])"

text \<open>
  \<^verbatim>\<open>$facet\<close> runs both sub-pipelines on the same input and gives one document with
  their results as arrays: \<^verbatim>\<open>total\<close> from \<^verbatim>\<open>$group\<close>, \<^verbatim>\<open>data\<close> from
  \<^verbatim>\<open>$skip\<close>, \<^verbatim>\<open>$limit\<close>, \<^verbatim>\<open>$project\<close>.
\<close>

definition facet :: "('a \<Rightarrow> 'd) \<Rightarrow> nat \<Rightarrow> nat \<Rightarrow> 'a list \<Rightarrow> nat list \<times> 'd list" where
  "facet proj limit skip docs = (group_count docs, map proj (take limit (drop skip docs)))"

text \<open>
  \<^verbatim>\<open>{ $unwind: '$total' }\<close>: one output document for each element of the
  \<^verbatim>\<open>total\<close> array, none when the array is empty.
\<close>

definition unwind_total :: "nat list \<times> 'd list \<Rightarrow> (nat \<times> 'd list) list" where
  "unwind_total f = map (\<lambda>t. (t, snd f)) (fst f)"

record 'd page =
  total :: nat
  data :: "'d list"

text \<open>The last \<^verbatim>\<open>$project\<close>: \<^verbatim>\<open>{ total: '$total.count', data: '$data' }\<close>.\<close>

definition project_page :: "nat \<times> 'd list \<Rightarrow> 'd page" where
  "project_page d = \<lparr>total = fst d, data = snd d\<rparr>"

text \<open>\<^verbatim>\<open>.then((items) => items[0])\<close>: \<^verbatim>\<open>undefined\<close> for an empty result.\<close>

definition first_item :: "'a list \<Rightarrow> 'a option" where
  "first_item items = (case items of [] \<Rightarrow> None | x # _ \<Rightarrow> Some x)"

text \<open>A default parameter value (\<^verbatim>\<open>limit = 100, skip = 0\<close>) replaces an omitted argument.\<close>

definition default_arg :: "nat \<Rightarrow> nat option \<Rightarrow> nat" where
  "default_arg d a = (case a of None \<Rightarrow> d | Some n \<Rightarrow> n)"

text \<open>
  The server checks the pipeline before it runs it: \<^verbatim>\<open>$limit\<close> takes a positive
  integer, and \<^verbatim>\<open>{ $limit: 0 }\<close> is rejected whatever the collection holds
  (\<^verbatim>\<open>$skip\<close> takes any non-negative integer).
\<close>

definition limit_error :: error where
  "limit_error = MongoServerError ''the limit must be positive''"

subsection \<open>\<^verbatim>\<open>getLatestChatMessagesByRoom\<close>\<close>

text \<open>
  Lines 6 to 68 of \<^verbatim>\<open>src/unnamed/part_000\<close>: \<^verbatim>\<open>$match\<close> on the room,
  \<^verbatim>\<open>$sort\<close> by date descending, \<^verbatim>\<open>$lookup\<close> of the sender, \<^verbatim>\<open>$facet\<close>,
  \<^verbatim>\<open>$unwind\<close>, \<^verbatim>\<open>$project\<close>, then the first item of the result.
\<close>

definition getLatestChatMessagesByRoom ::
  "store \<Rightarrow> objectId \<Rightarrow> nat option \<Rightarrow> nat option \<Rightarrow> error + roomMessage page option" where
  "getLatestChatMessagesByRoom st rId limit skip =
     (if default_arg 100 limit = 0 then Inl limit_error
      else Inr (first_item (map project_page (unwind_total
             (facet project_room (default_arg 100 limit) (default_arg 0 skip)
                (map (lookup_user (users st))
                   (sort_desc date
                      (filter (\<lambda>m. roomId m = rId) (chatMessages st)))))))))"

subsection \<open>\<^verbatim>\<open>getLatestChatMessagesByUserId\<close>\<close>

text \<open>
  Lines 77 to 122. \<open>notificationsTypes\<close> stands for
  \<^verbatim>\<open>Object.values(notificationsTypes)\<close>, the values of a constant of the package
  \<^verbatim>\<open>@wallfair.io/wallfair-commons\<close>. \<^verbatim>\<open>read: { $exists: false }\<close> matches the
  documents without a \<^verbatim>\<open>read\<close> field.
\<close>

definition getLatestChatMessagesByUserId ::
  "string list \<Rightarrow> store \<Rightarrow> objectId \<Rightarrow> nat option \<Rightarrow> nat option
     \<Rightarrow> error + notification page option" where
  "getLatestChatMessagesByUserId notificationsTypes st uId limit skip =
     (if default_arg 100 limit = 0 then Inl limit_error
      else Inr (first_item (map project_page (unwind_total
             (facet project_notification (default_arg 100 limit) (default_arg 0 skip)
                (sort_desc date
                   (filter (\<lambda>m. userId m = uId \<and> read m = None
                                \<and> type m \<in> set notificationsTypes)
                      (chatMessages st))))))))"

section \<open>The users controller\<close>

subsection \<open>\<^verbatim>\<open>getLeaderboard\<close>\<close>

text \<open>
  \<^verbatim>\<open>
  const users = await User.find({ username: { $exists: true } })
    .select({ username: 1, amountWon: 1 })
    .sort({ amountWon: -1 }).limit(limit).skip(skip).exec();
  const total = await User.countDocuments().exec();
  res.json({ total, users, limit, skip });
  \<close>
  The options of a query are applied in the order sort, skip, limit, whatever the order of
  the calls that set them, and a limit of 0 on a query means no limit.
  \<^verbatim>\<open>countDocuments()\<close> is called without a filter.
\<close>

record leaderboardEntry =
  le_id :: objectId
  le_username :: "string option"
  le_amountWon :: int

record leaderboard =
  lb_total :: nat
  lb_users :: "leaderboardEntry list"
  lb_limit :: nat
  lb_skip :: nat

definition select_entry :: "user \<Rightarrow> leaderboardEntry" where
  "select_entry u = \<lparr>le_id = u_id u, le_username = username u, le_amountWon = amountWon u\<rparr>"

definition query_limit :: "nat \<Rightarrow> 'a list \<Rightarrow> 'a list" where
  "query_limit n docs = (if n = 0 then docs else take n docs)"

definition countDocuments :: "user list \<Rightarrow> nat" where
  "countDocuments coll = length coll"

definition getLeaderboard :: "store \<Rightarrow> nat \<Rightarrow> nat \<Rightarrow> leaderboard" where
  "getLeaderboard st limit skip =
     \<lparr>lb_total = countDocuments (users st),
      lb_users = map select_entry
        (query_limit limit (drop skip
           (sort_desc amountWon (filter (\<lambda>u. username u \<noteq> None) (users st))))),
      lb_limit = limit,
      lb_skip = skip\<rparr>"

subsection \<open>Requests, responses and the user service\<close>

text \<open>
  A JSON object is an association list. A request carries \<^verbatim>\<open>req.user\<close> (set by the
  authentication middleware), \<^verbatim>\<open>req.params.userId\<close> and \<^verbatim>\<open>req.body\<close>. A handler
  either sends a response with a status and a body, or passes
  \<^verbatim>\<open>new ErrorHandler(status, message)\<close> to \<^verbatim>\<open>next\<close>.
\<close>

type_synonym json = "(string \<times> string) list"

record request =
  req_user :: user
  req_params_userId :: string
  req_body :: json

datatype response = Json nat json | Next nat string

fun status :: "response \<Rightarrow> nat" where
  "status (Json n b) = n"
| "status (Next n m) = n"

text \<open>
  \<^verbatim>\<open>services/user-service\<close> is not among the sources: its three functions used here
  are parameters of the handlers. Each may throw (\<open>Inl\<close>); the two that write return
  the users collection they leave behind.
\<close>

record userService =
  svc_getUserById :: "user list \<Rightarrow> string \<Rightarrow> error + user option"
  svc_saveUser :: "user \<Rightarrow> user list \<Rightarrow> (error + user) \<times> user list"
  svc_updateUser :: "string \<Rightarrow> json \<Rightarrow> user list \<Rightarrow> (error + unit) \<times> user list"

subsection \<open>\<^verbatim>\<open>bindWalletAddress\<close>\<close>

text \<open>\<^verbatim>\<open>User.findOne({ walletAddress })\<close>: the first user with that wallet, or null.\<close>

definition findOne_walletAddress :: "user list \<Rightarrow> string \<Rightarrow> user option" where
  "findOne_walletAddress coll w = find (\<lambda>u. walletAddress u = Some w) coll"

text \<open>
  The body of the \<^verbatim>\<open>try\<close> block, lines 78 to 98, as the outcome of the block (an
  exception or the response it sent) and the store it leaves.
  \<^verbatim>\<open>
  const walletUser = await User.findOne({ walletAddress });
  if (walletUser && walletUser.id !== req.user.id) {
    return next(new ErrorHandler(409, 'This wallet is already bound to another user'));
  } if (!walletUser) {
    let user = await userService.getUserById(req.user.id);
    user.walletAddress = walletAddress;
    user = await userService.saveUser(user);
  } else { }
  res.status(201).json({ userId: user.id, walletAddress });
  \<close>
  \<^verbatim>\<open>user\<close> is declared by \<^verbatim>\<open>let\<close> inside the block of \<^verbatim>\<open>if (!walletUser)\<close>
  and the function and the module bind no other \<^verbatim>\<open>user\<close>, so where the response is
  built the name is unbound: evaluating the argument \<^verbatim>\<open>user.id\<close> raises a
  ReferenceError and \<^verbatim>\<open>json\<close> is never called.
\<close>

definition send_bound :: "error + response" where
  "send_bound = Inl (ReferenceError ''user is not defined'')"

definition bindWalletAddress_try ::
  "userService \<Rightarrow> request \<Rightarrow> string \<Rightarrow> store \<Rightarrow> (error + response) \<times> store" where
  "bindWalletAddress_try svc req w st =
     (case findOne_walletAddress (users st) w of
        Some walletUser \<Rightarrow>
          if u_id walletUser \<noteq> u_id (req_user req)
          then (Inr (Next 409 ''This wallet is already bound to another user''), st)
          else (send_bound, st)
      | None \<Rightarrow>
          (case svc_getUserById svc (users st) (u_id (req_user req)) of
             Inl e \<Rightarrow> (Inl e, st)
           | Inr None \<Rightarrow> (Inl (TypeError ''Cannot set properties of null''), st)
           | Inr (Some u) \<Rightarrow>
               (case svc_saveUser svc (u\<lparr>walletAddress := Some w\<rparr>) (users st) of
                  (Inl e, us) \<Rightarrow> (Inl e, st\<lparr>users := us\<rparr>)
                | (Inr u', us) \<Rightarrow> (send_bound, st\<lparr>users := us\<rparr>))))"

text \<open>
  The handler, lines 67 to 103: \<^verbatim>\<open>!walletAddress\<close> holds for an absent and for an
  empty address; an exception of the \<^verbatim>\<open>try\<close> block becomes
  \<^verbatim>\<open>next(new ErrorHandler(422, err.message))\<close>.
\<close>

definition bindWalletAddress :: "userService \<Rightarrow> request \<Rightarrow> store \<Rightarrow> response \<times> store" where
  "bindWalletAddress svc req st =
     (case map_of (req_body req) ''walletAddress'' of
        None \<Rightarrow> (Next 422 ''WalletAddress expected, but was missing'', st)
      | Some w \<Rightarrow>
          if w = [] then (Next 422 ''WalletAddress expected, but was missing'', st)
          else (case bindWalletAddress_try svc req w st of
                  (Inl e, st') \<Rightarrow> (Next 422 (err_message e), st')
                | (Inr r, st') \<Rightarrow> (r, st')))"

subsection \<open>\<^verbatim>\<open>updateUser\<close>\<close>

text \<open>
  \<^verbatim>\<open>
  if (req.user.admin === false && req.params.userId !== req.user.id) {
    return next(new ErrorHandler(403, 'Action not allowed'));
  }
  try {
    await userService.updateUser(req.params.userId, req.body);
    res.status(200).send({ status: 'OK' });
  } catch (err) { next(new ErrorHandler(422, err.message)); }
  \<close>
\<close>

definition updateUser :: "userService \<Rightarrow> request \<Rightarrow> store \<Rightarrow> response \<times> store" where
  "updateUser svc req st =
     (if admin (req_user req) = Some False \<and> req_params_userId req \<noteq> u_id (req_user req)
      then (Next 403 ''Action not allowed'', st)
      else (case svc_updateUser svc (req_params_userId req) (req_body req) (users st) of
              (Inl e, us) \<Rightarrow> (Next 422 (err_message e), st\<lparr>users := us\<rparr>)
            | (Inr ok, us) \<Rightarrow> (Json 200 [(''status'', ''OK'')], st\<lparr>users := us\<rparr>)))"

section \<open>Example data\<close>

text \<open>
  A user service in the manner of mongoose, for the examples: \<^verbatim>\<open>getUserById\<close> finds
  the user by \<^verbatim>\<open>_id\<close>, \<^verbatim>\<open>saveUser\<close> writes the document back, and
  \<^verbatim>\<open>updateUser\<close> sets the \<^verbatim>\<open>name\<close> of the target from the body and throws when
  the target does not exist.
\<close>

definition replace_user :: "user \<Rightarrow> user list \<Rightarrow> user list" where
  "replace_user u coll = map (\<lambda>d. if u_id d = u_id u then u else d) coll"

definition exampleService :: userService where
  "exampleService =
     \<lparr>svc_getUserById = (\<lambda>coll i. Inr (find (\<lambda>u. u_id u = i) coll)),
      svc_saveUser = (\<lambda>u coll. (Inr u, replace_user u coll)),
      svc_updateUser = (\<lambda>i b coll.
         case find (\<lambda>u. u_id u = i) coll of
           None \<Rightarrow> (Inl (ServiceError ''User not found''), coll)
         | Some u \<Rightarrow> (Inr (), replace_user (u\<lparr>name := map_of b ''name''\<rparr>) coll))\<rparr>"

text \<open>Three users: a plain one, one without an \<^verbatim>\<open>admin\<close> field, and an admin without username.\<close>

definition alice :: user where
  "alice = \<lparr>u_id = ''a1'', username = Some ''alice'', name = Some ''Alice'',
     profilePicture = Some ''alice.png'', walletAddress = None, admin = Some False,
     amountWon = 30\<rparr>"

definition bob :: user where
  "bob = \<lparr>u_id = ''b2'', username = Some ''bob'', name = None,
     profilePicture = None, walletAddress = Some ''0xb0b'', admin = None,
     amountWon = 70\<rparr>"

definition root :: user where
  "root = \<lparr>u_id = ''c3'', username = None, name = Some ''Root'',
     profilePicture = None, walletAddress = None, admin = Some True,
     amountWon = 0\<rparr>"

definition msg1 :: chatMessage where
  "msg1 = \<lparr>m_id = ''m1'', roomId = ''r1'', userId = ''a1'', type = ''Notification/EVENT_START'',
     message = ''started'', payload = Some ''{}'', date = 100, read = None\<rparr>"

definition msg2 :: chatMessage where
  "msg2 = \<lparr>m_id = ''m2'', roomId = ''r1'', userId = ''zz'', type = ''message'',
     message = ''hello'', payload = None, date = 300, read = None\<rparr>"

definition msg3 :: chatMessage where
  "msg3 = \<lparr>m_id = ''m3'', roomId = ''r1'', userId = ''a1'', type = ''Notification/EVENT_RESOLVE'',
     message = ''resolved'', payload = None, date = 200, read = Some 250\<rparr>"

definition st0 :: store where
  "st0 = \<lparr>chatMessages = [msg1, msg2, msg3], users = [alice, bob, root]\<rparr>"

text \<open>The store \<open>st0\<close> after the first message was marked read at 1000, and at 2000.\<close>

definition marked1000 :: store where
  "marked1000 = \<lparr>chatMessages = [msg1\<lparr>read := Some 1000\<rparr>, msg2, msg3], users = [alice, bob, root]\<rparr>"

definition marked2000 :: store where
  "marked2000 = \<lparr>chatMessages = [msg1\<lparr>read := Some 2000\<rparr>, msg2, msg3], users = [alice, bob, root]\<rparr>"

definition mk_msg :: "nat \<Rightarrow> chatMessage" where
  "mk_msg i = \<lparr>m_id = replicate (Suc i) CHR ''m'', roomId = ''R1'', userId = ''a1'',
     type = ''message'', message = ''hi'', payload = None, date = int i, read = None\<rparr>"

definition room150 :: store where
  "room150 = \<lparr>chatMessages = map mk_msg [0..<150], users = [alice]\<rparr>"

definition msg4 :: chatMessage where
  "msg4 = \<lparr>m_id = ''m4'', roomId = ''r2'', userId = ''a1'', type = ''message'',
     message = ''hi all'', payload = None, date = 400, read = None\<rparr>"

definition msg5 :: chatMessage where
  "msg5 = \<lparr>m_id = ''m5'', roomId = ''r2'', userId = ''a1'', type = ''Notification/EVENT_RESOLVE'',
     message = ''resolved again'', payload = None, date = 500, read = None\<rparr>"

definition inbox :: store where
  "inbox = \<lparr>chatMessages = [msg1, msg2, msg3, msg4, msg5], users = [alice]\<rparr>"

definition exampleTypes :: "string list" where
  "exampleTypes = [''Notification/EVENT_START'', ''Notification/EVENT_RESOLVE'']"

definition bindRequest :: "user \<Rightarrow> json \<Rightarrow> request" where
  "bindRequest u b = \<lparr>req_user = u, req_params_userId = [], req_body = b\<rparr>"

definition updateRequest :: "user \<Rightarrow> string \<Rightarrow> json \<Rightarrow> request" where
  "updateRequest u i b = \<lparr>req_user = u, req_params_userId = i, req_body = b\<rparr>"

section \<open>Properties of \<^verbatim>\<open>setMessageRead\<close>\<close>

lemma findById_m_id: "findById coll i = Some m \<Longrightarrow> m_id m = i"
  unfolding findById_def by (induction coll) (auto split: if_splits)

lemma findById_save_same:
  "findById coll i = Some m \<Longrightarrow> m_id m' = i \<Longrightarrow> findById (save m' coll) i = Some m'"
  unfolding findById_def by (induction coll) (auto split: if_splits)

lemma findById_save_other:
  "j \<noteq> m_id m' \<Longrightarrow> findById (save m' coll) j = findById coll j"
  unfolding findById_def by (induction coll) auto

text \<open>
  Claim C1. With a requesting user that carries an id and an admin flag,
  \<open>setMessageRead\<close> fails with NotFound when no message has the id, and the store is
  unchanged; it fails with Forbidden, the store (and so the message's \<open>read\<close> field)
  unchanged, when the user is neither an admin (\<open>admin = true\<close>) nor the sender of the
  message; and otherwise it succeeds: the stored message is the loaded one with
  \<open>read\<close> set to the current time, every other message and the users are as before.
\<close>

theorem setMessageRead_outcomes:
  "(findById (chatMessages st) messageId = None \<longrightarrow>
      setMessageRead now messageId (Some u) st = (Inl NotFoundError, st))
   \<and> (\<forall>m. findById (chatMessages st) messageId = Some m
          \<and> \<not> (admin u = Some True \<or> userId m = u_id u) \<longrightarrow>
        setMessageRead now messageId (Some u) st = (Inl ForbiddenError, st))
   \<and> (\<forall>m. findById (chatMessages st) messageId = Some m
          \<and> (admin u = Some True \<or> userId m = u_id u) \<longrightarrow>
        fst (setMessageRead now messageId (Some u) st) = Inr ()
        \<and> findById (chatMessages (snd (setMessageRead now messageId (Some u) st))) messageId
            = Some (m\<lparr>read := Some now\<rparr>)
        \<and> (\<forall>j. j \<noteq> messageId \<longrightarrow>
              findById (chatMessages (snd (setMessageRead now messageId (Some u) st))) j
              = findById (chatMessages st) j)
        \<and> users (snd (setMessageRead now messageId (Some u) st)) = users st)"
proof (intro conjI allI impI)
  assume "findById (chatMessages st) messageId = None"
  then show "setMessageRead now messageId (Some u) st = (Inl NotFoundError, st)"
    by (simp add: setMessageRead_def)
next
  fix m
  assume "findById (chatMessages st) messageId = Some m
    \<and> \<not> (admin u = Some True \<or> userId m = u_id u)"
  then show "setMessageRead now messageId (Some u) st = (Inl ForbiddenError, st)"
    by (simp add: setMessageRead_def truthy_def)
next
  fix m
  assume a: "findById (chatMessages st) messageId = Some m
    \<and> (admin u = Some True \<or> userId m = u_id u)"
  then have f: "findById (chatMessages st) messageId = Some m" by simp
  from a have ok: "\<not> (\<not> truthy (admin u) \<and> userId m \<noteq> u_id u)"
    by (auto simp: truthy_def)
  have r: "setMessageRead now messageId (Some u) st
    = (Inr (), st\<lparr>chatMessages := save (m\<lparr>read := Some now\<rparr>) (chatMessages st)\<rparr>)"
    using f ok by (simp add: setMessageRead_def)
  have i: "m_id (m\<lparr>read := Some now\<rparr>) = messageId"
    using findById_m_id [OF f] by simp
  show "fst (setMessageRead now messageId (Some u) st) = Inr ()"
    by (simp add: r)
  show "findById (chatMessages (snd (setMessageRead now messageId (Some u) st))) messageId
    = Some (m\<lparr>read := Some now\<rparr>)"
    using findById_save_same [OF f i] by (simp add: r)
  show "users (snd (setMessageRead now messageId (Some u) st)) = users st"
    by (simp add: r)
  fix j
  assume "j \<noteq> messageId"
  then have "j \<noteq> m_id (m\<lparr>read := Some now\<rparr>)" using i by simp
  then show "findById (chatMessages (snd (setMessageRead now messageId (Some u) st))) j
    = findById (chatMessages st) j"
    using findById_save_other by (simp add: r)
qed

lemmas fixture_defs = st0_def msg1_def msg2_def msg3_def alice_def bob_def root_def

theorem setMessageRead_outcomes_witness:
  "findById (chatMessages st0) ''m9'' = None
   \<and> setMessageRead 1000 ''m9'' (Some bob) st0 = (Inl NotFoundError, st0)
   \<and> findById (chatMessages st0) ''m1'' = Some msg1
   \<and> \<not> (admin bob = Some True \<or> userId msg1 = u_id bob)
   \<and> setMessageRead 1000 ''m1'' (Some bob) st0 = (Inl ForbiddenError, st0)
   \<and> (admin alice = Some True \<or> userId msg1 = u_id alice)
   \<and> fst (setMessageRead 1000 ''m1'' (Some alice) st0) = Inr ()
   \<and> findById (chatMessages (snd (setMessageRead 1000 ''m1'' (Some alice) st0))) ''m1''
       = Some (msg1\<lparr>read := Some 1000\<rparr>)
   \<and> (admin root = Some True \<or> userId msg2 = u_id root)
   \<and> findById (chatMessages (snd (setMessageRead 1000 ''m2'' (Some root) st0))) ''m2''
       = Some (msg2\<lparr>read := Some 1000\<rparr>)"
proof -
  have h1: "findById (chatMessages st0) ''m9'' = None"
    by (simp add: findById_def fixture_defs)
  have h2: "findById (chatMessages st0) ''m1'' = Some msg1"
    by (simp add: findById_def fixture_defs)
  have h3: "findById (chatMessages st0) ''m2'' = Some msg2"
    by (simp add: findById_def fixture_defs)
  have n: "\<not> (admin bob = Some True \<or> userId msg1 = u_id bob)"
    by (simp add: fixture_defs)
  have a: "admin alice = Some True \<or> userId msg1 = u_id alice"
    by (simp add: fixture_defs)
  have r: "admin root = Some True \<or> userId msg2 = u_id root"
    by (simp add: fixture_defs)
  have t1: "setMessageRead 1000 ''m9'' (Some bob) st0 = (Inl NotFoundError, st0)"
    using setMessageRead_outcomes [of st0 "''m9''" 1000 bob] h1 by simp
  have t2: "setMessageRead 1000 ''m1'' (Some bob) st0 = (Inl ForbiddenError, st0)"
    using setMessageRead_outcomes [of st0 "''m1''" 1000 bob] h2 n by simp
  have t3: "fst (setMessageRead 1000 ''m1'' (Some alice) st0) = Inr ()
     \<and> findById (chatMessages (snd (setMessageRead 1000 ''m1'' (Some alice) st0))) ''m1''
         = Some (msg1\<lparr>read := Some 1000\<rparr>)"
    using setMessageRead_outcomes [of st0 "''m1''" 1000 alice] h2 a by simp
  have t4: "findById (chatMessages (snd (setMessageRead 1000 ''m2'' (Some root) st0))) ''m2''
       = Some (msg2\<lparr>read := Some 1000\<rparr>)"
    using setMessageRead_outcomes [of st0 "''m2''" 1000 root] h3 r by simp
  show ?thesis
    using h1 h2 n a r t1 t2 t3 t4 by simp
qed

text \<open>
  Without a requesting user the call fails as well, with the TypeError of reading
  \<^verbatim>\<open>_id\<close> of \<^verbatim>\<open>undefined\<close>, and the store is unchanged.
\<close>

lemma setMessageRead_no_user:
  "findById (chatMessages st) messageId = Some m \<Longrightarrow>
     setMessageRead now messageId None st
       = (Inl (TypeError ''Cannot read properties of undefined''), st)"
  by (simp add: setMessageRead_def)

lemma setMessageRead_success:
  "setMessageRead now i ru st = (Inr (), st') \<Longrightarrow>
     \<exists>m. findById (chatMessages st) i = Some m
       \<and> st' = st\<lparr>chatMessages := save (m\<lparr>read := Some now\<rparr>) (chatMessages st)\<rparr>"
  by (auto simp: setMessageRead_def split: option.splits if_splits)

lemma setMessageRead_read_after:
  assumes "setMessageRead now i ru st = (Inr (), st')"
  shows "map_option read (findById (chatMessages st') i) = Some (Some now)"
proof -
  from setMessageRead_success [OF assms] obtain m where
    f: "findById (chatMessages st) i = Some m" and
    s: "st' = st\<lparr>chatMessages := save (m\<lparr>read := Some now\<rparr>) (chatMessages st)\<rparr>"
    by blast
  have "m_id (m\<lparr>read := Some now\<rparr>) = i" using findById_m_id [OF f] by simp
  from findById_save_same [OF f this] show ?thesis by (simp add: s)
qed

text \<open>
  Claim C3 fails: \<open>read\<close> is assigned on every successful call. After a call at time
  1000 and a second call at time 2000 on the same message, both successful, the marker is
  2000, not the time of the first call.
\<close>

theorem setMessageRead_twice_counterexample:
  "fst (setMessageRead 1000 ''m1'' (Some alice) st0) = Inr ()
   \<and> map_option read
        (findById (chatMessages (snd (setMessageRead 1000 ''m1'' (Some alice) st0))) ''m1'')
       = Some (Some 1000)
   \<and> fst (setMessageRead 2000 ''m1'' (Some alice)
        (snd (setMessageRead 1000 ''m1'' (Some alice) st0))) = Inr ()
   \<and> map_option read
        (findById (chatMessages (snd (setMessageRead 2000 ''m1'' (Some alice)
           (snd (setMessageRead 1000 ''m1'' (Some alice) st0))))) ''m1'')
       = Some (Some 2000)
   \<and> map_option read
        (findById (chatMessages (snd (setMessageRead 2000 ''m1'' (Some alice)
           (snd (setMessageRead 1000 ''m1'' (Some alice) st0))))) ''m1'')
       \<noteq> Some (Some 1000)"
  by (simp add: setMessageRead_def findById_def truthy_def fixture_defs)

text \<open>
  Claim C3, amended. Every successful call sets \<open>read\<close> to its own timestamp: after
  a successful call the marker is the time of that call, and after a later successful call
  on the same message it is the time of the later call (it is overwritten, and never
  unset).
\<close>

theorem setMessageRead_last_write_wins:
  fixes st st' st'' :: store
  assumes "setMessageRead t1 messageId u1 st = (Inr (), st')"
    and "setMessageRead t2 messageId u2 st' = (Inr (), st'')"
  shows "map_option read (findById (chatMessages st') messageId) = Some (Some t1)
     \<and> map_option read (findById (chatMessages st'') messageId) = Some (Some t2)"
  using assms setMessageRead_read_after by blast

theorem setMessageRead_last_write_wins_witness:
  "setMessageRead 1000 ''m1'' (Some alice) st0 = (Inr (), marked1000)
   \<and> setMessageRead 2000 ''m1'' (Some root) marked1000 = (Inr (), marked2000)
   \<and> map_option read (findById (chatMessages marked1000) ''m1'') = Some (Some 1000)
   \<and> map_option read (findById (chatMessages marked2000) ''m1'') = Some (Some 2000)"
proof -
  have a: "setMessageRead 1000 ''m1'' (Some alice) st0 = (Inr (), marked1000)"
    by (simp add: setMessageRead_def findById_def truthy_def fixture_defs marked1000_def)
  have b: "setMessageRead 2000 ''m1'' (Some root) marked1000 = (Inr (), marked2000)"
    by (simp add: setMessageRead_def findById_def truthy_def fixture_defs marked1000_def marked2000_def)
  show ?thesis
    using a b setMessageRead_last_write_wins [OF a b] by simp
qed

section \<open>Properties of the chat queries\<close>

lemma pipeline_empty:
  "first_item (map project_page (unwind_total (facet proj l s []))) = None"
  by (simp add: first_item_def unwind_total_def facet_def group_count_def)

lemma pipeline_nonempty:
  "docs \<noteq> [] \<Longrightarrow>
     first_item (map project_page (unwind_total (facet proj l s docs)))
     = Some \<lparr>total = length docs, data = map proj (take l (drop s docs))\<rparr>"
  by (simp add: first_item_def unwind_total_def facet_def group_count_def project_page_def)

lemma sort_desc_Nil_iff: "sort_desc k docs = [] \<longleftrightarrow> docs = []"
  by (metis length_0_conv length_sort sort_desc_def)

lemma length_sort_desc: "length (sort_desc k docs) = length docs"
  by (simp add: sort_desc_def)

lemma mset_sort_desc: "mset (sort_desc k docs) = mset docs"
  by (simp add: sort_desc_def)

lemma set_sort_desc: "set (sort_desc k docs) = set docs"
  by (simp add: sort_desc_def)

lemma sorted_sort_desc: "sorted_wrt (\<lambda>a b. k a \<ge> k b) (sort_desc k docs)"
proof -
  have "sorted (map (\<lambda>d. - k d) (sort_key (\<lambda>d. - k d) docs))" by (rule sorted_sort_key)
  then show ?thesis
    by (simp add: sort_desc_def sorted_wrt_map)
qed

lemma getLatestChatMessagesByRoom_eq:
  "getLatestChatMessagesByRoom st r limit skip =
     (if default_arg 100 limit = 0 then Inl limit_error
      else if filter (\<lambda>m. roomId m = r) (chatMessages st) = [] then Inr None
      else Inr (Some \<lparr>total = length (filter (\<lambda>m. roomId m = r) (chatMessages st)),
             data = map project_room (take (default_arg 100 limit) (drop (default_arg 0 skip)
                (map (lookup_user (users st))
                   (sort_desc date (filter (\<lambda>m. roomId m = r) (chatMessages st))))))\<rparr>))"
proof -
  let ?docs = "map (lookup_user (users st))
     (sort_desc date (filter (\<lambda>m. roomId m = r) (chatMessages st)))"
  have e: "?docs = [] \<longleftrightarrow> filter (\<lambda>m. roomId m = r) (chatMessages st) = []"
    by (simp add: sort_desc_Nil_iff)
  have l: "length ?docs = length (filter (\<lambda>m. roomId m = r) (chatMessages st))"
    by (simp add: length_sort_desc)
  show ?thesis
  proof (cases "?docs = []")
    case True
    then show ?thesis
      using e pipeline_empty [of project_room] by (simp add: getLatestChatMessagesByRoom_def)
  next
    case False
    then show ?thesis
      using e l pipeline_nonempty [OF False, of project_room]
      by (simp add: getLatestChatMessagesByRoom_def)
  qed
qed

lemma getLatestChatMessagesByUserId_eq:
  "getLatestChatMessagesByUserId ts st u limit skip =
     (if default_arg 100 limit = 0 then Inl limit_error
      else if filter (\<lambda>m. userId m = u \<and> read m = None \<and> type m \<in> set ts) (chatMessages st) = []
      then Inr None
      else Inr (Some \<lparr>total = length (filter (\<lambda>m. userId m = u \<and> read m = None \<and> type m \<in> set ts)
                    (chatMessages st)),
             data = map project_notification (take (default_arg 100 limit)
               (drop (default_arg 0 skip)
                 (sort_desc date (filter (\<lambda>m. userId m = u \<and> read m = None \<and> type m \<in> set ts)
                    (chatMessages st)))))\<rparr>))"
proof -
  let ?docs = "sort_desc date
     (filter (\<lambda>m. userId m = u \<and> read m = None \<and> type m \<in> set ts) (chatMessages st))"
  have e: "?docs = [] \<longleftrightarrow>
      filter (\<lambda>m. userId m = u \<and> read m = None \<and> type m \<in> set ts) (chatMessages st) = []"
    by (simp add: sort_desc_Nil_iff)
  show ?thesis
  proof (cases "?docs = []")
    case True
    then show ?thesis
      using e pipeline_empty [of project_notification]
      by (simp add: getLatestChatMessagesByUserId_def)
  next
    case False
    then show ?thesis
      using e pipeline_nonempty [OF False, of project_notification]
      by (simp add: getLatestChatMessagesByUserId_def length_sort_desc)
  qed
qed

text \<open>
  Claim C2 does not hold for every room and every non-negative limit: for a room without
  messages the query gives \<^verbatim>\<open>undefined\<close>, no \<open>total\<close> and no \<open>data\<close>, and
  with \<open>limit = 0\<close> the pipeline is rejected.
\<close>

theorem getLatestChatMessagesByRoom_counterexample:
  "getLatestChatMessagesByRoom \<lparr>chatMessages = [], users = []\<rparr> ''r1'' (Some 100) (Some 0)
     = Inr None
   \<and> getLatestChatMessagesByRoom st0 ''r1'' (Some 0) (Some 0) = Inl limit_error"
  by (simp add: getLatestChatMessagesByRoom_eq default_arg_def)

text \<open>
  Claim C2, amended. For every room with at least one message, every positive limit and
  every skip, the query returns a page whose \<open>total\<close> is the number of messages of
  the room, whatever the limit and the skip, and whose \<open>data\<close> has
  \<open>min limit (total - skip)\<close> documents when \<open>skip < total\<close> and none otherwise.
\<close>

theorem getLatestChatMessagesByRoom_page_length:
  assumes "0 < limit" and "filter (\<lambda>m. roomId m = r) (chatMessages st) \<noteq> []"
  shows "\<exists>p. getLatestChatMessagesByRoom st r (Some limit) (Some skip) = Inr (Some p)
     \<and> total p = length (filter (\<lambda>m. roomId m = r) (chatMessages st))
     \<and> length (data p) = (if skip < total p then min limit (total p - skip) else 0)"
  using assms
  by (auto simp: getLatestChatMessagesByRoom_eq default_arg_def length_sort_desc)

theorem getLatestChatMessagesByRoom_page_length_witness:
  "(0::nat) < 100
   \<and> filter (\<lambda>m. roomId m = ''R1'') (chatMessages room150) \<noteq> []
   \<and> (\<exists>p. getLatestChatMessagesByRoom room150 ''R1'' (Some 100) (Some 0) = Inr (Some p)
         \<and> total p = 150 \<and> length (data p) = 100)
   \<and> (\<exists>p. getLatestChatMessagesByRoom room150 ''R1'' (Some 100) (Some 100) = Inr (Some p)
         \<and> total p = 150 \<and> length (data p) = 50)
   \<and> (\<exists>p. getLatestChatMessagesByRoom room150 ''R1'' (Some 100) (Some 200) = Inr (Some p)
         \<and> total p = 150 \<and> length (data p) = 0)"
proof -
  have f: "filter (\<lambda>m. roomId m = ''R1'') (chatMessages room150) = map mk_msg [0..<150]"
    by (simp add: room150_def filter_map o_def mk_msg_def)
  have n: "filter (\<lambda>m. roomId m = ''R1'') (chatMessages room150) \<noteq> []"
    by (simp add: f)
  have l: "length (filter (\<lambda>m. roomId m = ''R1'') (chatMessages room150)) = 150"
    by (simp add: f)
  have p: "(0::nat) < 100" by simp
  have w0: "\<exists>p. getLatestChatMessagesByRoom room150 ''R1'' (Some 100) (Some 0) = Inr (Some p)
         \<and> total p = 150 \<and> length (data p) = 100"
    using getLatestChatMessagesByRoom_page_length [OF p n, of 0] unfolding l by auto
  have w1: "\<exists>p. getLatestChatMessagesByRoom room150 ''R1'' (Some 100) (Some 100) = Inr (Some p)
         \<and> total p = 150 \<and> length (data p) = 50"
    using getLatestChatMessagesByRoom_page_length [OF p n, of 100] unfolding l by auto
  have w2: "\<exists>p. getLatestChatMessagesByRoom room150 ''R1'' (Some 100) (Some 200) = Inr (Some p)
         \<and> total p = 150 \<and> length (data p) = 0"
    using getLatestChatMessagesByRoom_page_length [OF p n, of 200] unfolding l by auto
  from p n w0 w1 w2 show ?thesis by blast
qed

lemma arrayElemAt0_filter: "arrayElemAt0 (filter P xs) = find P xs"
  by (induction xs) (auto simp: arrayElemAt0_def)

lemma rm_user_project_room:
  "rm_user (project_room (lookup_user us m)) = sender_of (find (\<lambda>u. u_id u = userId m) us)"
  by (simp add: project_room_def lookup_user_def arrayElemAt0_filter)

lemma rm_userId_project_room: "rm_userId (project_room (lookup_user us m)) = userId m"
  by (simp add: project_room_def lookup_user_def)

lemma rm_id_project_room: "rm_id (project_room (lookup_user us m)) = m_id m"
  by (simp add: project_room_def lookup_user_def)

lemma rm_date_project_room: "rm_date (project_room (lookup_user us m)) = date m"
  by (simp add: project_room_def lookup_user_def)

lemma sorted_wrt_take_drop:
  "sorted_wrt R xs \<Longrightarrow> sorted_wrt R (take l (drop s xs))"
  by (meson sorted_wrt_drop sorted_wrt_take)

text \<open>
  Claim C6. The sender lookup is a left join: the total counts every message of the room,
  the page holds the messages of the window of the sorted sequence whether or not their
  sender exists, and each returned message carries the \<open>username\<close>, \<open>name\<close> and
  \<open>profilePicture\<close> the users collection holds for its sender when the query runs,
  or the empty object when the users collection has no such user.
\<close>

theorem getLatestChatMessagesByRoom_left_join:
  assumes "getLatestChatMessagesByRoom st r limit skip = Inr (Some p)"
  shows "total p = length (filter (\<lambda>m. roomId m = r) (chatMessages st))
     \<and> map rm_id (data p)
         = map m_id (take (default_arg 100 limit) (drop (default_arg 0 skip)
             (sort_desc date (filter (\<lambda>m. roomId m = r) (chatMessages st)))))
     \<and> (\<forall>d \<in> set (data p).
           rm_user d =
             (case find (\<lambda>u. u_id u = rm_userId d) (users st) of
                None \<Rightarrow> \<lparr>sender_username = None, sender_name = None,
                          sender_profilePicture = None\<rparr>
              | Some u \<Rightarrow> \<lparr>sender_username = username u, sender_name = name u,
                            sender_profilePicture = profilePicture u\<rparr>))"
proof -
  let ?ms = "take (default_arg 100 limit) (drop (default_arg 0 skip)
     (sort_desc date (filter (\<lambda>m. roomId m = r) (chatMessages st))))"
  from assms have t: "total p = length (filter (\<lambda>m. roomId m = r) (chatMessages st))"
    and d: "data p = map (\<lambda>m. project_room (lookup_user (users st) m)) ?ms"
    by (auto simp: getLatestChatMessagesByRoom_eq take_map drop_map split: if_splits)
  have i: "map rm_id (data p) = map m_id ?ms"
    by (simp add: d rm_id_project_room)
  have u: "rm_user d' =
             (case find (\<lambda>u. u_id u = rm_userId d') (users st) of
                None \<Rightarrow> \<lparr>sender_username = None, sender_name = None,
                          sender_profilePicture = None\<rparr>
              | Some u \<Rightarrow> \<lparr>sender_username = username u, sender_name = name u,
                            sender_profilePicture = profilePicture u\<rparr>)"
    if "d' \<in> set (data p)" for d'
  proof -
    from that d obtain m where "d' = project_room (lookup_user (users st) m)" by auto
    then show ?thesis
      by (simp add: rm_user_project_room rm_userId_project_room sender_of_def)
  qed
  from t i u show ?thesis by blast
qed

theorem getLatestChatMessagesByRoom_left_join_witness:
  "getLatestChatMessagesByRoom st0 ''r1'' (Some 2) None
     = Inr (Some \<lparr>total = 3, data =
         [\<lparr>rm_id = ''m2'', rm_userId = ''zz'', rm_roomId = ''r1'', rm_type = ''message'',
           rm_message = ''hello'', rm_date = 300,
           rm_user = \<lparr>sender_username = None, sender_name = None,
                      sender_profilePicture = None\<rparr>\<rparr>,
          \<lparr>rm_id = ''m3'', rm_userId = ''a1'', rm_roomId = ''r1'',
           rm_type = ''Notification/EVENT_RESOLVE'',
           rm_message = ''resolved'', rm_date = 200,
           rm_user = \<lparr>sender_username = Some ''alice'', sender_name = Some ''Alice'',
                      sender_profilePicture = Some ''alice.png''\<rparr>\<rparr>]\<rparr>)
   \<and> find (\<lambda>u. u_id u = ''zz'') (users st0) = None
   \<and> find (\<lambda>u. u_id u = ''a1'') (users st0) = Some alice"
proof -
  have e: "getLatestChatMessagesByRoom st0 ''r1'' (Some 2) None
     = Inr (Some \<lparr>total = 3, data =
         [\<lparr>rm_id = ''m2'', rm_userId = ''zz'', rm_roomId = ''r1'', rm_type = ''message'',
           rm_message = ''hello'', rm_date = 300,
           rm_user = \<lparr>sender_username = None, sender_name = None,
                      sender_profilePicture = None\<rparr>\<rparr>,
          \<lparr>rm_id = ''m3'', rm_userId = ''a1'', rm_roomId = ''r1'',
           rm_type = ''Notification/EVENT_RESOLVE'',
           rm_message = ''resolved'', rm_date = 200,
           rm_user = \<lparr>sender_username = Some ''alice'', sender_name = Some ''Alice'',
                      sender_profilePicture = Some ''alice.png''\<rparr>\<rparr>]\<rparr>)"
    by (simp add: getLatestChatMessagesByRoom_def default_arg_def fixture_defs sort_desc_def
        lookup_user_def facet_def group_count_def unwind_total_def project_page_def
        first_item_def project_room_def arrayElemAt0_def sender_of_def)
  have f: "find (\<lambda>u. u_id u = ''zz'') (users st0) = None
     \<and> find (\<lambda>u. u_id u = ''a1'') (users st0) = Some alice"
    by (simp add: fixture_defs)
  show ?thesis
    using e f getLatestChatMessagesByRoom_left_join [OF e] by simp
qed

lemma room_page_example:
  "getLatestChatMessagesByRoom st0 ''r1'' (Some 2) None
     = Inr (Some \<lparr>total = 3, data =
         [\<lparr>rm_id = ''m2'', rm_userId = ''zz'', rm_roomId = ''r1'', rm_type = ''message'',
           rm_message = ''hello'', rm_date = 300,
           rm_user = \<lparr>sender_username = None, sender_name = None,
                      sender_profilePicture = None\<rparr>\<rparr>,
          \<lparr>rm_id = ''m3'', rm_userId = ''a1'', rm_roomId = ''r1'',
           rm_type = ''Notification/EVENT_RESOLVE'',
           rm_message = ''resolved'', rm_date = 200,
           rm_user = \<lparr>sender_username = Some ''alice'', sender_name = Some ''Alice'',
                      sender_profilePicture = Some ''alice.png''\<rparr>\<rparr>]\<rparr>)"
  by (simp add: getLatestChatMessagesByRoom_def default_arg_def fixture_defs sort_desc_def
      lookup_user_def facet_def group_count_def unwind_total_def project_page_def
      first_item_def project_room_def arrayElemAt0_def sender_of_def)

lemma inbox_page_example:
  "getLatestChatMessagesByUserId exampleTypes inbox ''a1'' None None
     = Inr (Some \<lparr>total = 2, data =
         [\<lparr>n_id = ''m5'', n_userId = ''a1'', n_roomId = ''r2'',
           n_type = ''Notification/EVENT_RESOLVE'', n_message = ''resolved again'',
           n_date = 500, n_payload = None\<rparr>,
          \<lparr>n_id = ''m1'', n_userId = ''a1'', n_roomId = ''r1'',
           n_type = ''Notification/EVENT_START'', n_message = ''started'',
           n_date = 100, n_payload = Some ''{}''\<rparr>]\<rparr>)"
  by (simp add: getLatestChatMessagesByUserId_def default_arg_def inbox_def fixture_defs
      msg4_def msg5_def exampleTypes_def sort_desc_def facet_def group_count_def
      unwind_total_def project_page_def first_item_def project_notification_def)

text \<open>
  Claim C5. Every document of a page of \<open>getLatestChatMessagesByUserId\<close> is the
  projection (\<^verbatim>\<open>_id\<close>, \<open>userId\<close>, \<open>roomId\<close>, \<open>type\<close>, \<open>message\<close>,
  \<open>date\<close>, \<open>payload\<close>, and nothing of the sender's profile) of a stored message
  that belongs to the user, has no \<open>read\<close> field and has a type of the whitelist.
\<close>

theorem getLatestChatMessagesByUserId_unread_notifications:
  assumes "getLatestChatMessagesByUserId ts st u limit skip = Inr (Some p)"
    and "d \<in> set (data p)"
  shows "n_userId d = u \<and> n_type d \<in> set ts
     \<and> (\<exists>m \<in> set (chatMessages st). userId m = u \<and> read m = None \<and> type m \<in> set ts
           \<and> d = \<lparr>n_id = m_id m, n_userId = userId m, n_roomId = roomId m, n_type = type m,
                   n_message = message m, n_date = date m, n_payload = payload m\<rparr>)"
proof -
  let ?ms = "filter (\<lambda>m. userId m = u \<and> read m = None \<and> type m \<in> set ts) (chatMessages st)"
  from assms(1) have "data p = map project_notification
      (take (default_arg 100 limit) (drop (default_arg 0 skip) (sort_desc date ?ms)))"
    by (auto simp: getLatestChatMessagesByUserId_eq split: if_splits)
  with assms(2) obtain m where
    m: "m \<in> set (take (default_arg 100 limit) (drop (default_arg 0 skip) (sort_desc date ?ms)))"
    and d: "d = project_notification m"
    by auto
  from m have "m \<in> set (sort_desc date ?ms)"
    by (meson in_set_dropD in_set_takeD)
  then have "m \<in> set ?ms" by (simp add: set_sort_desc)
  then have "m \<in> set (chatMessages st) \<and> userId m = u \<and> read m = None \<and> type m \<in> set ts"
    by simp
  with d show ?thesis
    by (auto simp: project_notification_def)
qed

theorem getLatestChatMessagesByUserId_unread_notifications_witness:
  "getLatestChatMessagesByUserId exampleTypes inbox ''a1'' None None
     = Inr (Some \<lparr>total = 2, data =
         [\<lparr>n_id = ''m5'', n_userId = ''a1'', n_roomId = ''r2'',
           n_type = ''Notification/EVENT_RESOLVE'', n_message = ''resolved again'',
           n_date = 500, n_payload = None\<rparr>,
          \<lparr>n_id = ''m1'', n_userId = ''a1'', n_roomId = ''r1'',
           n_type = ''Notification/EVENT_START'', n_message = ''started'',
           n_date = 100, n_payload = Some ''{}''\<rparr>]\<rparr>)
   \<and> msg1 \<in> set (chatMessages inbox) \<and> userId msg1 = ''a1'' \<and> read msg1 = None
   \<and> type msg1 \<in> set exampleTypes"
proof -
  let ?d = "\<lparr>n_id = ''m1'', n_userId = ''a1'', n_roomId = ''r1'',
           n_type = ''Notification/EVENT_START'', n_message = ''started'',
           n_date = 100, n_payload = Some ''{}''\<rparr>"
  note e = inbox_page_example
  have i: "?d \<in> set (data \<lparr>total = 2, data =
         [\<lparr>n_id = ''m5'', n_userId = ''a1'', n_roomId = ''r2'',
           n_type = ''Notification/EVENT_RESOLVE'', n_message = ''resolved again'',
           n_date = 500, n_payload = None\<rparr>, ?d]\<rparr>)"
    by simp
  have m: "msg1 \<in> set (chatMessages inbox) \<and> userId msg1 = ''a1'' \<and> read msg1 = None
     \<and> type msg1 \<in> set exampleTypes"
    by (simp add: inbox_def fixture_defs exampleTypes_def)
  show ?thesis
    using e m getLatestChatMessagesByUserId_unread_notifications [OF e i] by simp
qed

text \<open>
  Claim C7. In both chat queries the page is sorted by date, most recent first, and it is
  the window (skip, then limit) of one ordering of all matching messages that is sorted
  by date descending: the same ordering gives the total and the page.
\<close>

theorem chat_pages_sorted_by_date_descending:
  "(getLatestChatMessagesByRoom st r limit skip = Inr (Some p) \<longrightarrow>
      sorted_wrt (\<lambda>a b. rm_date b \<le> rm_date a) (data p)
      \<and> (\<exists>docs. mset docs = mset (filter (\<lambda>m. roomId m = r) (chatMessages st))
            \<and> sorted_wrt (\<lambda>a b. date b \<le> date a) docs
            \<and> total p = length docs
            \<and> map rm_id (data p)
                = map m_id (take (default_arg 100 limit) (drop (default_arg 0 skip) docs))))
   \<and> (getLatestChatMessagesByUserId ts st u limit skip = Inr (Some q) \<longrightarrow>
      sorted_wrt (\<lambda>a b. n_date b \<le> n_date a) (data q)
      \<and> (\<exists>docs. mset docs = mset (filter (\<lambda>m. userId m = u \<and> read m = None
                                               \<and> type m \<in> set ts) (chatMessages st))
            \<and> sorted_wrt (\<lambda>a b. date b \<le> date a) docs
            \<and> total q = length docs
            \<and> map n_id (data q)
                = map m_id (take (default_arg 100 limit) (drop (default_arg 0 skip) docs))))"
proof (intro conjI impI)
  let ?ms = "sort_desc date (filter (\<lambda>m. roomId m = r) (chatMessages st))"
  let ?w = "take (default_arg 100 limit) (drop (default_arg 0 skip) ?ms)"
  assume a: "getLatestChatMessagesByRoom st r limit skip = Inr (Some p)"
  then have t: "total p = length ?ms"
    and d: "data p = map (\<lambda>m. project_room (lookup_user (users st) m)) ?w"
    by (auto simp: getLatestChatMessagesByRoom_eq take_map drop_map length_sort_desc
        split: if_splits)
  have s: "sorted_wrt (\<lambda>a b. date b \<le> date a) ?ms" by (rule sorted_sort_desc)
  then have "sorted_wrt (\<lambda>a b. date b \<le> date a) ?w" by (rule sorted_wrt_take_drop)
  then show "sorted_wrt (\<lambda>a b. rm_date b \<le> rm_date a) (data p)"
    by (simp add: d sorted_wrt_map rm_date_project_room)
  have "map rm_id (data p) = map m_id ?w" by (simp add: d rm_id_project_room)
  with s t mset_sort_desc [of date "filter (\<lambda>m. roomId m = r) (chatMessages st)"]
  show "\<exists>docs. mset docs = mset (filter (\<lambda>m. roomId m = r) (chatMessages st))
            \<and> sorted_wrt (\<lambda>a b. date b \<le> date a) docs
            \<and> total p = length docs
            \<and> map rm_id (data p)
                = map m_id (take (default_arg 100 limit) (drop (default_arg 0 skip) docs))"
    by blast
next
  let ?f = "filter (\<lambda>m. userId m = u \<and> read m = None \<and> type m \<in> set ts) (chatMessages st)"
  let ?ms = "sort_desc date ?f"
  let ?w = "take (default_arg 100 limit) (drop (default_arg 0 skip) ?ms)"
  assume a: "getLatestChatMessagesByUserId ts st u limit skip = Inr (Some q)"
  then have t: "total q = length ?ms"
    and d: "data q = map project_notification ?w"
    by (auto simp: getLatestChatMessagesByUserId_eq length_sort_desc split: if_splits)
  have s: "sorted_wrt (\<lambda>a b. date b \<le> date a) ?ms" by (rule sorted_sort_desc)
  then have "sorted_wrt (\<lambda>a b. date b \<le> date a) ?w" by (rule sorted_wrt_take_drop)
  then show "sorted_wrt (\<lambda>a b. n_date b \<le> n_date a) (data q)"
    by (simp add: d sorted_wrt_map project_notification_def)
  have "map n_id (data q) = map m_id ?w" by (simp add: d project_notification_def)
  with s t mset_sort_desc [of date ?f]
  show "\<exists>docs. mset docs = mset ?f
            \<and> sorted_wrt (\<lambda>a b. date b \<le> date a) docs
            \<and> total q = length docs
            \<and> map n_id (data q)
                = map m_id (take (default_arg 100 limit) (drop (default_arg 0 skip) docs))"
    by blast
qed

theorem chat_pages_sorted_by_date_descending_witness:
  "getLatestChatMessagesByRoom st0 ''r1'' (Some 2) None
     = Inr (Some \<lparr>total = 3, data =
         [\<lparr>rm_id = ''m2'', rm_userId = ''zz'', rm_roomId = ''r1'', rm_type = ''message'',
           rm_message = ''hello'', rm_date = 300,
           rm_user = \<lparr>sender_username = None, sender_name = None,
                      sender_profilePicture = None\<rparr>\<rparr>,
          \<lparr>rm_id = ''m3'', rm_userId = ''a1'', rm_roomId = ''r1'',
           rm_type = ''Notification/EVENT_RESOLVE'',
           rm_message = ''resolved'', rm_date = 200,
           rm_user = \<lparr>sender_username = Some ''alice'', sender_name = Some ''Alice'',
                      sender_profilePicture = Some ''alice.png''\<rparr>\<rparr>]\<rparr>)
   \<and> sorted_wrt (\<lambda>a b. b \<le> a) [300, 200 :: int]
   \<and> getLatestChatMessagesByUserId exampleTypes inbox ''a1'' None None
     = Inr (Some \<lparr>total = 2, data =
         [\<lparr>n_id = ''m5'', n_userId = ''a1'', n_roomId = ''r2'',
           n_type = ''Notification/EVENT_RESOLVE'', n_message = ''resolved again'',
           n_date = 500, n_payload = None\<rparr>,
          \<lparr>n_id = ''m1'', n_userId = ''a1'', n_roomId = ''r1'',
           n_type = ''Notification/EVENT_START'', n_message = ''started'',
           n_date = 100, n_payload = Some ''{}''\<rparr>]\<rparr>)
   \<and> sorted_wrt (\<lambda>a b. b \<le> a) [500, 100 :: int]"
proof -
  note a = chat_pages_sorted_by_date_descending
    [where st = st0 and r = "''r1''" and limit = "Some 2" and skip = None,
      THEN conjunct1, THEN mp, OF room_page_example, THEN conjunct1]
  note b = chat_pages_sorted_by_date_descending
    [where st = inbox and u = "''a1''" and ts = exampleTypes and limit = None and skip = None,
      THEN conjunct2, THEN mp, OF inbox_page_example, THEN conjunct1]
  show ?thesis
    using a b room_page_example inbox_page_example by simp
qed

text \<open>
  Claim C8. When no message matches, and the limit is the default or any positive number,
  either chat query returns \<^verbatim>\<open>undefined\<close>: not an error, and not a page with
  \<open>total = 0\<close> and empty \<open>data\<close>.
\<close>

theorem chat_queries_zero_match_undefined:
  "(filter (\<lambda>m. roomId m = r) (chatMessages st) = [] \<and> limit \<noteq> Some 0 \<longrightarrow>
      getLatestChatMessagesByRoom st r limit skip = Inr None)
   \<and> (filter (\<lambda>m. userId m = u \<and> read m = None \<and> type m \<in> set ts) (chatMessages st) = []
        \<and> limit \<noteq> Some 0 \<longrightarrow>
      getLatestChatMessagesByUserId ts st u limit skip = Inr None)"
  by (cases limit) (simp_all add: getLatestChatMessagesByRoom_eq
      getLatestChatMessagesByUserId_eq default_arg_def)

theorem chat_queries_zero_match_undefined_witness:
  "filter (\<lambda>m. roomId m = ''r9'') (chatMessages inbox) = [] \<and> Some 10 \<noteq> Some (0::nat)
   \<and> getLatestChatMessagesByRoom inbox ''r9'' (Some 10) (Some 0) = Inr None
   \<and> filter (\<lambda>m. userId m = ''zz'' \<and> read m = None \<and> type m \<in> set exampleTypes)
        (chatMessages inbox) = [] \<and> (None :: nat option) \<noteq> Some 0
   \<and> getLatestChatMessagesByUserId exampleTypes inbox ''zz'' None None = Inr None
   \<and> getLatestChatMessagesByRoom inbox ''r9'' (Some 10) (Some 0)
        \<noteq> Inr (Some \<lparr>total = 0, data = []\<rparr>)"
proof -
  have a: "filter (\<lambda>m. roomId m = ''r9'') (chatMessages inbox) = []"
    by (simp add: inbox_def fixture_defs msg4_def msg5_def)
  have b: "filter (\<lambda>m. userId m = ''zz'' \<and> read m = None \<and> type m \<in> set exampleTypes)
        (chatMessages inbox) = []"
    by (simp add: inbox_def fixture_defs msg4_def msg5_def exampleTypes_def)
  have r1: "getLatestChatMessagesByRoom inbox ''r9'' (Some 10) (Some 0) = Inr None"
    using a chat_queries_zero_match_undefined
      [of "''r9''" inbox "Some 10" "Some 0" "''zz''" exampleTypes]
    by simp
  have r2: "getLatestChatMessagesByUserId exampleTypes inbox ''zz'' None None = Inr None"
    using b chat_queries_zero_match_undefined
      [of "''r9''" inbox None None "''zz''" exampleTypes]
    by simp
  show ?thesis using a b r1 r2 by simp
qed

section \<open>Properties of the users controller\<close>

lemma getLeaderboard_total: "lb_total (getLeaderboard st limit skip) = length (users st)"
  by (simp add: getLeaderboard_def countDocuments_def)

lemma getLeaderboard_sorted:
  "sorted_wrt (\<lambda>a b. le_amountWon b \<le> le_amountWon a) (lb_users (getLeaderboard st limit skip))"
proof -
  let ?us = "sort_desc amountWon (filter (\<lambda>u. username u \<noteq> None) (users st))"
  have "sorted_wrt (\<lambda>a b. amountWon b \<le> amountWon a) ?us" by (rule sorted_sort_desc)
  then have "sorted_wrt (\<lambda>a b. amountWon b \<le> amountWon a) (query_limit limit (drop skip ?us))"
    by (simp add: query_limit_def sorted_wrt_drop sorted_wrt_take)
  then show ?thesis
    by (simp add: getLeaderboard_def sorted_wrt_map select_entry_def)
qed

text \<open>
  Claim C4 on a store where one user has no username: the page holds the two users with a
  username, sorted by \<open>amountWon\<close> descending, and the total is 3, the number of all
  users, whereas the filter of the leaderboard matches 2.
\<close>

theorem getLeaderboard_total_counts_every_user:
  "getLeaderboard st0 10 0
     = \<lparr>lb_total = 3,
        lb_users = [\<lparr>le_id = ''b2'', le_username = Some ''bob'', le_amountWon = 70\<rparr>,
                    \<lparr>le_id = ''a1'', le_username = Some ''alice'', le_amountWon = 30\<rparr>],
        lb_limit = 10, lb_skip = 0\<rparr>
   \<and> length (filter (\<lambda>u. username u \<noteq> None) (users st0)) = 2"
  by (simp add: getLeaderboard_def countDocuments_def query_limit_def sort_desc_def
      select_entry_def fixture_defs)

lemma bindWalletAddress_try_cases:
  "fst (bindWalletAddress_try svc req w st) = Inr (Next 409 ''This wallet is already bound to another user'')
   \<or> (\<exists>e. fst (bindWalletAddress_try svc req w st) = Inl e)"
  by (auto simp: bindWalletAddress_try_def send_bound_def
      split: option.splits sum.splits prod.splits)

lemma bindWalletAddress_try_409:
  "fst (bindWalletAddress_try svc req w st) = Inr r \<longleftrightarrow>
     r = Next 409 ''This wallet is already bound to another user''
     \<and> (\<exists>walletUser. findOne_walletAddress (users st) w = Some walletUser
           \<and> u_id walletUser \<noteq> u_id (req_user req))"
  by (auto simp: bindWalletAddress_try_def send_bound_def
      split: option.splits sum.splits prod.splits)

lemma bindWalletAddress_try_409_store:
  "findOne_walletAddress (users st) w = Some walletUser \<Longrightarrow>
     u_id walletUser \<noteq> u_id (req_user req) \<Longrightarrow>
     bindWalletAddress_try svc req w st
       = (Inr (Next 409 ''This wallet is already bound to another user''), st)"
  by (simp add: bindWalletAddress_try_def)

lemma bindWalletAddress_status:
  "\<exists>m. fst (bindWalletAddress svc req st) = Next 422 m
     \<or> fst (bindWalletAddress svc req st) = Next 409 m"
proof (cases "map_of (req_body req) ''walletAddress''")
  case None
  then show ?thesis by (simp add: bindWalletAddress_def)
next
  case (Some w)
  show ?thesis
  proof (cases "w = []")
    case True
    with Some show ?thesis by (simp add: bindWalletAddress_def)
  next
    case False
    obtain o' st' where t: "bindWalletAddress_try svc req w st = (o', st')"
      by (cases "bindWalletAddress_try svc req w st")
    from bindWalletAddress_try_cases [of svc req w st] t
    have "o' = Inr (Next 409 ''This wallet is already bound to another user'')
      \<or> (\<exists>e. o' = Inl e)" by simp
    then show ?thesis
    proof
      assume "o' = Inr (Next 409 ''This wallet is already bound to another user'')"
      with Some False t show ?thesis by (simp add: bindWalletAddress_def)
    next
      assume "\<exists>e. o' = Inl e"
      then obtain e where "o' = Inl e" ..
      with Some False t show ?thesis by (simp add: bindWalletAddress_def)
    qed
  qed
qed

lemma bindWalletAddress_try_error:
  assumes "\<not> (\<exists>walletUser. findOne_walletAddress (users st) w = Some walletUser
                \<and> u_id walletUser \<noteq> u_id (req_user req))"
  shows "\<exists>e. fst (bindWalletAddress_try svc req w st) = Inl e"
proof (cases "fst (bindWalletAddress_try svc req w st)")
  case (Inl e)
  then show ?thesis by simp
next
  case (Inr r)
  from bindWalletAddress_try_409 [THEN iffD1, OF Inr] assms show ?thesis by blast
qed

lemma bindWalletAddress_missing:
  "map_of (req_body req) ''walletAddress'' = None
    \<or> map_of (req_body req) ''walletAddress'' = Some [] \<Longrightarrow>
   bindWalletAddress svc req st = (Next 422 ''WalletAddress expected, but was missing'', st)"
  by (auto simp: bindWalletAddress_def)

lemma bindWalletAddress_conflict:
  "map_of (req_body req) ''walletAddress'' = Some w \<Longrightarrow> w \<noteq> [] \<Longrightarrow>
   findOne_walletAddress (users st) w = Some walletUser \<Longrightarrow>
   u_id walletUser \<noteq> u_id (req_user req) \<Longrightarrow>
   bindWalletAddress svc req st
     = (Next 409 ''This wallet is already bound to another user'', st)"
  by (simp add: bindWalletAddress_def bindWalletAddress_try_409_store)

lemma bindWalletAddress_remaining:
  assumes w: "map_of (req_body req) ''walletAddress'' = Some w" and n: "w \<noteq> []"
    and a: "\<not> (\<exists>walletUser. findOne_walletAddress (users st) w = Some walletUser
                \<and> u_id walletUser \<noteq> u_id (req_user req))"
  shows "\<exists>m. fst (bindWalletAddress svc req st) = Next 422 m"
proof -
  from bindWalletAddress_try_error [OF a]
  obtain e where "fst (bindWalletAddress_try svc req w st) = Inl e" ..
  then obtain st' where "bindWalletAddress_try svc req w st = (Inl e, st')"
    by (cases "bindWalletAddress_try svc req w st") simp
  with w n show ?thesis
    by (simp add: bindWalletAddress_def)
qed

lemma bindWalletAddress_persisted:
  "map_of (req_body req) ''walletAddress'' = Some w \<Longrightarrow> w \<noteq> [] \<Longrightarrow>
   findOne_walletAddress (users st) w = None \<Longrightarrow>
   svc_getUserById svc (users st) (u_id (req_user req)) = Inr (Some u) \<Longrightarrow>
   svc_saveUser svc (u\<lparr>walletAddress := Some w\<rparr>) (users st) = (Inr u', us) \<Longrightarrow>
   bindWalletAddress svc req st = (Next 422 ''user is not defined'', st\<lparr>users := us\<rparr>)"
  by (simp add: bindWalletAddress_def bindWalletAddress_try_def send_bound_def)

text \<open>
  Claim C9. \<open>bindWalletAddress\<close> never sends a response of its own, so never the 201:
  it passes a 422 to \<^verbatim>\<open>next\<close> when the wallet address is missing (or empty), a 409
  when the wallet is bound to a different user, and a 422 in every other case. When the
  wallet is bound to nobody, the requesting user is found and saving succeeds, the store
  is the one \<^verbatim>\<open>saveUser\<close> left after it was given the user with the new wallet
  address, and the answer is the 422 of the ReferenceError raised by the out-of-scope
  \<^verbatim>\<open>user\<close>.
\<close>

theorem bindWalletAddress_never_succeeds:
  "(\<forall>n b. fst (bindWalletAddress svc req st) \<noteq> Json n b)
   \<and> status (fst (bindWalletAddress svc req st)) \<noteq> 201
   \<and> (map_of (req_body req) ''walletAddress'' = None
        \<or> map_of (req_body req) ''walletAddress'' = Some [] \<longrightarrow>
      bindWalletAddress svc req st = (Next 422 ''WalletAddress expected, but was missing'', st))
   \<and> (\<forall>w walletUser. map_of (req_body req) ''walletAddress'' = Some w \<and> w \<noteq> []
        \<and> findOne_walletAddress (users st) w = Some walletUser
        \<and> u_id walletUser \<noteq> u_id (req_user req) \<longrightarrow>
      bindWalletAddress svc req st
        = (Next 409 ''This wallet is already bound to another user'', st))
   \<and> (\<forall>w. map_of (req_body req) ''walletAddress'' = Some w \<and> w \<noteq> []
        \<and> \<not> (\<exists>walletUser. findOne_walletAddress (users st) w = Some walletUser
                \<and> u_id walletUser \<noteq> u_id (req_user req)) \<longrightarrow>
      (\<exists>m. fst (bindWalletAddress svc req st) = Next 422 m))
   \<and> (\<forall>w u u' us. map_of (req_body req) ''walletAddress'' = Some w \<and> w \<noteq> []
        \<and> findOne_walletAddress (users st) w = None
        \<and> svc_getUserById svc (users st) (u_id (req_user req)) = Inr (Some u)
        \<and> svc_saveUser svc (u\<lparr>walletAddress := Some w\<rparr>) (users st) = (Inr u', us) \<longrightarrow>
      bindWalletAddress svc req st = (Next 422 ''user is not defined'', st\<lparr>users := us\<rparr>))"
proof (intro conjI allI impI)
  fix n b
  from bindWalletAddress_status [of svc req st]
  obtain m where "fst (bindWalletAddress svc req st) = Next 422 m
     \<or> fst (bindWalletAddress svc req st) = Next 409 m" ..
  then show "fst (bindWalletAddress svc req st) \<noteq> Json n b" by auto
next
  from bindWalletAddress_status [of svc req st]
  obtain m where "fst (bindWalletAddress svc req st) = Next 422 m
     \<or> fst (bindWalletAddress svc req st) = Next 409 m" ..
  then show "status (fst (bindWalletAddress svc req st)) \<noteq> 201" by auto
next
  assume "map_of (req_body req) ''walletAddress'' = None
    \<or> map_of (req_body req) ''walletAddress'' = Some []"
  then show "bindWalletAddress svc req st
    = (Next 422 ''WalletAddress expected, but was missing'', st)"
    by (rule bindWalletAddress_missing)
next
  fix w walletUser
  assume "map_of (req_body req) ''walletAddress'' = Some w \<and> w \<noteq> []
        \<and> findOne_walletAddress (users st) w = Some walletUser
        \<and> u_id walletUser \<noteq> u_id (req_user req)"
  then show "bindWalletAddress svc req st
        = (Next 409 ''This wallet is already bound to another user'', st)"
    using bindWalletAddress_conflict by blast
next
  fix w
  assume "map_of (req_body req) ''walletAddress'' = Some w \<and> w \<noteq> []
        \<and> \<not> (\<exists>walletUser. findOne_walletAddress (users st) w = Some walletUser
                \<and> u_id walletUser \<noteq> u_id (req_user req))"
  then show "\<exists>m. fst (bindWalletAddress svc req st) = Next 422 m"
    using bindWalletAddress_remaining by blast
next
  fix w u u' us
  assume "map_of (req_body req) ''walletAddress'' = Some w \<and> w \<noteq> []
        \<and> findOne_walletAddress (users st) w = None
        \<and> svc_getUserById svc (users st) (u_id (req_user req)) = Inr (Some u)
        \<and> svc_saveUser svc (u\<lparr>walletAddress := Some w\<rparr>) (users st) = (Inr u', us)"
  then show "bindWalletAddress svc req st
    = (Next 422 ''user is not defined'', st\<lparr>users := us\<rparr>)"
    using bindWalletAddress_persisted by blast
qed

theorem bindWalletAddress_never_succeeds_witness:
  "bindWalletAddress exampleService (bindRequest alice []) st0
     = (Next 422 ''WalletAddress expected, but was missing'', st0)
   \<and> findOne_walletAddress (users st0) ''0xb0b'' = Some bob \<and> u_id bob \<noteq> u_id alice
   \<and> bindWalletAddress exampleService (bindRequest alice [(''walletAddress'', ''0xb0b'')]) st0
     = (Next 409 ''This wallet is already bound to another user'', st0)
   \<and> (\<exists>m. fst (bindWalletAddress exampleService
          (bindRequest bob [(''walletAddress'', ''0xb0b'')]) st0) = Next 422 m)
   \<and> findOne_walletAddress (users st0) ''0xa11ce'' = None
   \<and> bindWalletAddress exampleService (bindRequest alice [(''walletAddress'', ''0xa11ce'')]) st0
     = (Next 422 ''user is not defined'',
        st0\<lparr>users := [alice\<lparr>walletAddress := Some ''0xa11ce''\<rparr>, bob, root]\<rparr>)"
proof -
  let ?r0 = "bindRequest alice []"
  let ?r1 = "bindRequest alice [(''walletAddress'', ''0xb0b'')]"
  let ?r2 = "bindRequest bob [(''walletAddress'', ''0xb0b'')]"
  let ?r3 = "bindRequest alice [(''walletAddress'', ''0xa11ce'')]"
  have f1: "findOne_walletAddress (users st0) ''0xb0b'' = Some bob"
    by (simp add: findOne_walletAddress_def fixture_defs)
  have f3: "findOne_walletAddress (users st0) ''0xa11ce'' = None"
    by (simp add: findOne_walletAddress_def fixture_defs)
  have n: "u_id bob \<noteq> u_id alice" by (simp add: fixture_defs)
  have h0: "map_of (req_body ?r0) ''walletAddress'' = None
      \<or> map_of (req_body ?r0) ''walletAddress'' = Some []"
    by (simp add: bindRequest_def)
  have h1: "map_of (req_body ?r1) ''walletAddress'' = Some ''0xb0b'' \<and> ''0xb0b'' \<noteq> []
        \<and> findOne_walletAddress (users st0) ''0xb0b'' = Some bob
        \<and> u_id bob \<noteq> u_id (req_user ?r1)"
    using f1 n by (simp add: bindRequest_def)
  have h2: "map_of (req_body ?r2) ''walletAddress'' = Some ''0xb0b'' \<and> ''0xb0b'' \<noteq> []
        \<and> \<not> (\<exists>walletUser. findOne_walletAddress (users st0) ''0xb0b'' = Some walletUser
                \<and> u_id walletUser \<noteq> u_id (req_user ?r2))"
    using f1 by (simp add: bindRequest_def)
  have h3: "map_of (req_body ?r3) ''walletAddress'' = Some ''0xa11ce'' \<and> ''0xa11ce'' \<noteq> []
        \<and> findOne_walletAddress (users st0) ''0xa11ce'' = None
        \<and> svc_getUserById exampleService (users st0) (u_id (req_user ?r3)) = Inr (Some alice)
        \<and> svc_saveUser exampleService (alice\<lparr>walletAddress := Some ''0xa11ce''\<rparr>) (users st0)
            = (Inr (alice\<lparr>walletAddress := Some ''0xa11ce''\<rparr>),
               [alice\<lparr>walletAddress := Some ''0xa11ce''\<rparr>, bob, root])"
    using f3 by (simp add: bindRequest_def exampleService_def replace_user_def fixture_defs)
  note t0 = bindWalletAddress_never_succeeds [of exampleService ?r0 st0,
      THEN conjunct2, THEN conjunct2, THEN conjunct1, THEN mp, OF h0]
  note t1 = bindWalletAddress_never_succeeds [of exampleService ?r1 st0,
      THEN conjunct2, THEN conjunct2, THEN conjunct2, THEN conjunct1,
      THEN spec, THEN spec, THEN mp, OF h1]
  note t2 = bindWalletAddress_never_succeeds [of exampleService ?r2 st0,
      THEN conjunct2, THEN conjunct2, THEN conjunct2, THEN conjunct2, THEN conjunct1,
      THEN spec, THEN mp, OF h2]
  note t3 = bindWalletAddress_never_succeeds [of exampleService ?r3 st0,
      THEN conjunct2, THEN conjunct2, THEN conjunct2, THEN conjunct2, THEN conjunct2,
      THEN spec, THEN spec, THEN spec, THEN spec, THEN mp, OF h3]
  from t0 f1 n t1 t2 f3 t3 show ?thesis by (intro conjI)
qed

text \<open>
  Claim C10. \<open>updateUser\<close> answers 403 exactly when the requester's \<open>admin\<close> field
  is the boolean \<open>false\<close> and the target differs from the requester. A requester whose
  \<open>admin\<close> field is absent passes the check for any target: the update of the service
  runs on the target, its store is kept, and the answer is 200 when it does not throw.
\<close>

theorem updateUser_forbidden_iff:
  "(status (fst (updateUser svc req st)) = 403 \<longleftrightarrow>
      admin (req_user req) = Some False \<and> req_params_userId req \<noteq> u_id (req_user req))
   \<and> (admin (req_user req) = Some False \<and> req_params_userId req \<noteq> u_id (req_user req) \<longrightarrow>
        updateUser svc req st = (Next 403 ''Action not allowed'', st))
   \<and> (admin (req_user req) = None \<longrightarrow>
        snd (updateUser svc req st)
          = st\<lparr>users := snd (svc_updateUser svc (req_params_userId req) (req_body req) (users st))\<rparr>
        \<and> (fst (svc_updateUser svc (req_params_userId req) (req_body req) (users st)) = Inr ()
             \<longrightarrow> fst (updateUser svc req st) = Json 200 [(''status'', ''OK'')]))"
  by (auto simp: updateUser_def split: prod.splits sum.splits)

theorem updateUser_forbidden_iff_witness:
  "admin alice = Some False \<and> ''b2'' \<noteq> u_id alice
   \<and> updateUser exampleService (updateRequest alice ''b2'' [(''name'', ''Mallory'')]) st0
       = (Next 403 ''Action not allowed'', st0)
   \<and> admin bob = None
   \<and> updateUser exampleService (updateRequest bob ''a1'' [(''name'', ''Mallory'')]) st0
       = (Json 200 [(''status'', ''OK'')],
          st0\<lparr>users := [alice\<lparr>name := Some ''Mallory''\<rparr>, bob, root]\<rparr>)"
proof -
  let ?r1 = "updateRequest alice ''b2'' [(''name'', ''Mallory'')]"
  let ?r2 = "updateRequest bob ''a1'' [(''name'', ''Mallory'')]"
  have a: "admin alice = Some False \<and> ''b2'' \<noteq> u_id alice" by (simp add: fixture_defs)
  have b: "admin bob = None" by (simp add: fixture_defs)
  have h1: "admin (req_user ?r1) = Some False \<and> req_params_userId ?r1 \<noteq> u_id (req_user ?r1)"
    using a by (simp add: updateRequest_def)
  have h2: "admin (req_user ?r2) = None"
    using b by (simp add: updateRequest_def)
  have s: "svc_updateUser exampleService (req_params_userId ?r2) (req_body ?r2) (users st0)
     = (Inr (), [alice\<lparr>name := Some ''Mallory''\<rparr>, bob, root])"
    by (simp add: updateRequest_def exampleService_def replace_user_def fixture_defs)
  note t1 = updateUser_forbidden_iff [of exampleService ?r1 st0,
      THEN conjunct2, THEN conjunct1, THEN mp, OF h1]
  note t2 = updateUser_forbidden_iff [of exampleService ?r2 st0,
      THEN conjunct2, THEN conjunct2, THEN mp, OF h2]
  from t2 have "snd (updateUser exampleService ?r2 st0)
      = st0\<lparr>users := [alice\<lparr>name := Some ''Mallory''\<rparr>, bob, root]\<rparr>"
    and "fst (updateUser exampleService ?r2 st0) = Json 200 [(''status'', ''OK'')]"
    unfolding s by simp_all
  then have t2': "updateUser exampleService ?r2 st0
       = (Json 200 [(''status'', ''OK'')],
          st0\<lparr>users := [alice\<lparr>name := Some ''Mallory''\<rparr>, bob, root]\<rparr>)"
    by (simp add: prod_eq_iff)
  from a t1 b t2' show ?thesis by (intro conjI) simp_all
qed

end
